theory Spec2Isabelle
  imports Main
begin

section \<open>Constants of \<^verbatim>\<open>libs/langgraph/src/constants.ts\<close>\<close>

definition INPUT :: string where "INPUT = ''__input__''"
definition ERROR :: string where "ERROR = ''__error__''"
definition CONFIG_KEY_SEND :: string where "CONFIG_KEY_SEND = ''__pregel_send''"
definition CONFIG_KEY_READ :: string where "CONFIG_KEY_READ = ''__pregel_read''"
definition CONFIG_KEY_CHECKPOINTER :: string where
  "CONFIG_KEY_CHECKPOINTER = ''__pregel_checkpointer''"
definition CONFIG_KEY_RESUMING :: string where "CONFIG_KEY_RESUMING = ''__pregel_resuming''"
definition CONFIG_KEY_TASK_ID :: string where "CONFIG_KEY_TASK_ID = ''__pregel_task_id''"
definition CONFIG_KEY_STREAM :: string where "CONFIG_KEY_STREAM = ''__pregel_stream''"
definition CONFIG_KEY_RESUME_VALUE :: string where
  "CONFIG_KEY_RESUME_VALUE = ''__pregel_resume_value''"
definition CONFIG_KEY_WRITES :: string where "CONFIG_KEY_WRITES = ''__pregel_writes''"
definition CONFIG_KEY_SCRATCHPAD :: string where
  "CONFIG_KEY_SCRATCHPAD = ''__pregel_scratchpad''"
definition CONFIG_KEY_CHECKPOINT_NS :: string where "CONFIG_KEY_CHECKPOINT_NS = ''checkpoint_ns''"
definition CONFIG_KEY_CHECKPOINT_MAP :: string where
  "CONFIG_KEY_CHECKPOINT_MAP = ''checkpoint_map''"

definition INTERRUPT :: string where "INTERRUPT = ''__interrupt__''"
definition RESUME :: string where "RESUME = ''__resume__''"
definition RECURSION_LIMIT_DEFAULT :: nat where "RECURSION_LIMIT_DEFAULT = 25"

definition TASKS :: string where "TASKS = ''__pregel_tasks''"
definition PUSH :: string where "PUSH = ''__pregel_push''"
definition PULL :: string where "PULL = ''__pregel_pull''"

definition TASK_NAMESPACE :: string where
  "TASK_NAMESPACE = ''6ba7b831-9dad-11d1-80b4-00c04fd430c8''"
definition NULL_TASK_ID :: string where
  "NULL_TASK_ID = ''00000000-0000-0000-0000-000000000000''"

text \<open>The reserved-name list, element by element in the order of the source.\<close>

definition RESERVED :: "string list" where
  "RESERVED =
    [INTERRUPT, RESUME, ERROR, TASKS, CONFIG_KEY_SEND, CONFIG_KEY_READ,
     CONFIG_KEY_CHECKPOINTER, CONFIG_KEY_RESUMING, CONFIG_KEY_TASK_ID, CONFIG_KEY_STREAM,
     CONFIG_KEY_CHECKPOINT_MAP, INPUT]"

definition CHECKPOINT_NAMESPACE_SEPARATOR :: string where
  "CHECKPOINT_NAMESPACE_SEPARATOR = ''|''"

section \<open>JavaScript values\<close>

text \<open>
  An exception: the TypeError that the language raises (a member read on \<^verbatim>\<open>undefined\<close> or
  \<^verbatim>\<open>null\<close>, any operation on a revoked Proxy), or whatever a getter of the argument throws.
\<close>

datatype error = TypeError | Thrown

text \<open>
  The functions of the module take arguments of type \<^verbatim>\<open>unknown\<close> and \<^verbatim>\<open>any\<close>, so
  the model works on a datatype of run-time values: \<^verbatim>\<open>undefined\<close>, \<^verbatim>\<open>null\<close>, booleans,
  numbers (the integer-valued ones and \<^verbatim>\<open>NaN\<close>; the module computes with no number, it
  only tests values for truth), big integers, strings, symbols (by their description),
  arrays, objects and functions.

  \<^item> \<open>JArr\<close> is an ordinary array, given by its elements: no holes, no named properties of
    its own, the methods of \<^verbatim>\<open>Array.prototype\<close> in place.
  \<^item> \<open>JObj\<close> is an object of own enumerable data properties only (an object literal of
    data): the list of its properties in the order in which \<^verbatim>\<open>Object.entries\<close> enumerates
    them; a key is looked up from the front of the list. \<open>JFun\<close> is a function with such
    properties.
  \<^item> \<open>JObjProps\<close> is an object with any kind of property. Each entry holds a key, whether
    the property is the object's own and enumerable (an inherited or hidden property is
    found by a read, not by \<^verbatim>\<open>Object.entries\<close>), and the outcome of reading it: the value
    of a data property, or what its getter returns or throws.
  \<^item> \<open>JRevoked\<close> is a revoked Proxy of an object that is not a function: \<^verbatim>\<open>typeof\<close> and the
    truth test still answer, every other operation on it throws a TypeError.

  The module compares values with \<^verbatim>\<open>===\<close> and \<^verbatim>\<open>!==\<close> against \<^verbatim>\<open>undefined\<close> and against
  string literals only, where strict equality is equality of the values.
\<close>

datatype jsval =
    JUndefined
  | JNull
  | JBool bool
  | JNum int
  | JNaN
  | JBigInt int
  | JStr string
  | JSymbol string
  | JArr "jsval list"
  | JObj "(string \<times> jsval) list"
  | JFun "(string \<times> jsval) list"
  | JObjProps "(string \<times> bool \<times> (error + jsval)) list"
  | JRevoked

fun typeof :: "jsval \<Rightarrow> string" where
  "typeof JUndefined = ''undefined''"
| "typeof JNull = ''object''"
| "typeof (JBool b) = ''boolean''"
| "typeof (JNum n) = ''number''"
| "typeof JNaN = ''number''"
| "typeof (JBigInt n) = ''bigint''"
| "typeof (JStr s) = ''string''"
| "typeof (JSymbol d) = ''symbol''"
| "typeof (JArr xs) = ''object''"
| "typeof (JObj kvs) = ''object''"
| "typeof (JFun kvs) = ''function''"
| "typeof (JObjProps ps) = ''object''"
| "typeof JRevoked = ''object''"

text \<open>\<^verbatim>\<open>ToBoolean\<close>, as applied by \<^verbatim>\<open>if (v)\<close>, \<^verbatim>\<open>v && ...\<close> and \<^verbatim>\<open>!!v\<close>.\<close>

fun truthy :: "jsval \<Rightarrow> bool" where
  "truthy JUndefined = False"
| "truthy JNull = False"
| "truthy (JBool b) = b"
| "truthy (JNum n) = (n \<noteq> 0)"
| "truthy JNaN = False"
| "truthy (JBigInt n) = (n \<noteq> 0)"
| "truthy (JStr s) = (s \<noteq> [])"
| "truthy (JSymbol d) = True"
| "truthy (JArr xs) = True"
| "truthy (JObj kvs) = True"
| "truthy (JFun kvs) = True"
| "truthy (JObjProps ps) = True"
| "truthy JRevoked = True"

text \<open>\<^verbatim>\<open>Array.isArray\<close>; on a revoked Proxy it throws.\<close>

fun isArray :: "jsval \<Rightarrow> error + bool" where
  "isArray (JArr xs) = Inr True"
| "isArray JRevoked = Inl TypeError"
| "isArray v = Inr False"

text \<open>
  Reading a named member \<^verbatim>\<open>x.k\<close>. On \<^verbatim>\<open>undefined\<close>, \<^verbatim>\<open>null\<close> and a revoked Proxy the read
  throws a TypeError; on an object it gives the outcome of reading the property, which for
  a getter may be an exception, and \<^verbatim>\<open>undefined\<close> when there is no such property. The names
  the module reads this way are \<^verbatim>\<open>node\<close>, \<^verbatim>\<open>args\<close>, \<^verbatim>\<open>lg_name\<close>, \<^verbatim>\<open>resume\<close>, \<^verbatim>\<open>graph\<close>,
  \<^verbatim>\<open>update\<close> and \<^verbatim>\<open>goto\<close>; none of them is an array index, \<^verbatim>\<open>length\<close>, or a member of a
  built-in prototype, so a primitive or an ordinary array has none of them.
\<close>

definition member_of :: "(string \<times> jsval) list \<Rightarrow> string \<Rightarrow> jsval" where
  "member_of kvs k = (case map_of kvs k of None \<Rightarrow> JUndefined | Some v \<Rightarrow> v)"

fun get_member :: "jsval \<Rightarrow> string \<Rightarrow> error + jsval" where
  "get_member JUndefined k = Inl TypeError"
| "get_member JNull k = Inl TypeError"
| "get_member JRevoked k = Inl TypeError"
| "get_member (JObj kvs) k = Inr (member_of kvs k)"
| "get_member (JFun kvs) k = Inr (member_of kvs k)"
| "get_member (JObjProps ps) k =
     (case map_of ps k of None \<Rightarrow> Inr JUndefined | Some (own, outcome) \<Rightarrow> outcome)"
| "get_member v k = Inr JUndefined"

text \<open>\<^verbatim>\<open>t.length\<close> and \<^verbatim>\<open>t[i]\<close> on an array; an index out of range reads \<^verbatim>\<open>undefined\<close>.\<close>

fun array_elems :: "jsval \<Rightarrow> jsval list" where
  "array_elems (JArr xs) = xs"
| "array_elems v = []"

definition array_index :: "jsval \<Rightarrow> nat \<Rightarrow> jsval" where
  "array_index t i = (if i < length (array_elems t) then array_elems t ! i else JUndefined)"

text \<open>Sequencing of computations that may throw.\<close>

fun and_then :: "error + 'a \<Rightarrow> ('a \<Rightarrow> error + 'b) \<Rightarrow> error + 'b" where
  "and_then (Inl e) f = Inl e"
| "and_then (Inr x) f = f x"

text \<open>
  \<^verbatim>\<open>Object.entries\<close>: the array of \<^verbatim>\<open>[key, value]\<close> arrays of the own enumerable
  string-keyed properties of its argument. It reads the properties one after the other,
  and the first read that throws ends it. An array or a string has its indices, in decimal,
  for keys; \<^verbatim>\<open>undefined\<close> and \<^verbatim>\<open>null\<close> are no objects.
\<close>

fun decimal :: "nat \<Rightarrow> string" where
  "decimal n =
     (if n < 10 then [''0123456789'' ! n]
      else decimal (n div 10) @ [''0123456789'' ! (n mod 10)])"

definition index_entries :: "jsval list \<Rightarrow> jsval list" where
  "index_entries xs = map (\<lambda>(i, x). JArr [JStr (decimal i), x]) (enumerate 0 xs)"

fun read_entries :: "(string \<times> bool \<times> (error + jsval)) list \<Rightarrow> error + jsval list" where
  "read_entries [] = Inr []"
| "read_entries ((k, own, outcome) # ps) =
     (if own
      then and_then outcome (\<lambda>v.
           and_then (read_entries ps) (\<lambda>es. Inr (JArr [JStr k, v] # es)))
      else read_entries ps)"

fun Object_entries :: "jsval \<Rightarrow> error + jsval" where
  "Object_entries JUndefined = Inl TypeError"
| "Object_entries JNull = Inl TypeError"
| "Object_entries JRevoked = Inl TypeError"
| "Object_entries (JObj kvs) = Inr (JArr (map (\<lambda>(k, v). JArr [JStr k, v]) kvs))"
| "Object_entries (JFun kvs) = Inr (JArr (map (\<lambda>(k, v). JArr [JStr k, v]) kvs))"
| "Object_entries (JObjProps ps) = and_then (read_entries ps) (\<lambda>es. Inr (JArr es))"
| "Object_entries (JArr xs) = Inr (JArr (index_entries xs))"
| "Object_entries (JStr s) = Inr (JArr (index_entries (map (\<lambda>c. JStr [c]) s)))"
| "Object_entries v = Inr (JArr [])"

text \<open>
  \<^verbatim>\<open>xs.every(cb)\<close> on an ordinary array: the callback is applied from the front, the first
  element that fails ends the loop with \<^verbatim>\<open>false\<close>, and an exception of the callback leaves
  it.
\<close>

fun every :: "(jsval \<Rightarrow> error + bool) \<Rightarrow> jsval list \<Rightarrow> error + bool" where
  "every cb [] = Inr True"
| "every cb (t # ts) = and_then (cb t) (\<lambda>b. if b then every cb ts else Inr False)"

section \<open>\<^verbatim>\<open>Send\<close>\<close>

text \<open>
  \<^verbatim>\<open>_isSendInterface(x)\<close>:
  \<^verbatim>\<open>typeof operation.node === "string" && operation.args !== undefined\<close>.
  The second member is read only when the first test holds.
\<close>

definition isSendInterface :: "jsval \<Rightarrow> error + bool" where
  "isSendInterface x =
     and_then (get_member x ''node'') (\<lambda>n.
       if typeof n = ''string''
       then and_then (get_member x ''args'') (\<lambda>a. Inr (a \<noteq> JUndefined))
       else Inr False)"

text \<open>
  \<^verbatim>\<open>new Send(node, args)\<close>: the parameter properties \<^verbatim>\<open>node\<close> and \<^verbatim>\<open>args\<close> hold the
  arguments of the constructor, and the field \<^verbatim>\<open>lg_name\<close> its initial value.
\<close>

definition Send_new :: "string \<Rightarrow> jsval \<Rightarrow> jsval" where
  "Send_new node args = JObj [(''node'', JStr node), (''args'', args), (''lg_name'', JStr ''Send'')]"

text \<open>\<^verbatim>\<open>_isSend(x)\<close>: \<^verbatim>\<open>operation !== undefined && operation.lg_name === "Send"\<close>.\<close>

definition isSend :: "jsval \<Rightarrow> error + bool" where
  "isSend x =
     (if x \<noteq> JUndefined
      then and_then (get_member x ''lg_name'') (\<lambda>n. Inr (n = JStr ''Send''))
      else Inr False)"

section \<open>\<^verbatim>\<open>Interrupt\<close>\<close>

text \<open>
  The type \<^verbatim>\<open>Interrupt\<close>: \<^verbatim>\<open>when\<close> has the literal type \<^verbatim>\<open>"during"\<close>; \<^verbatim>\<open>resumable\<close> and
  \<^verbatim>\<open>ns\<close> are optional members.
\<close>

datatype when_literal = During

fun when_string :: "when_literal \<Rightarrow> string" where
  "when_string During = ''during''"

record Interrupt =
  "value" :: jsval
  "when" :: when_literal
  resumable :: "bool option"
  ns :: "string list option"

section \<open>\<^verbatim>\<open>Command\<close>\<close>

text \<open>
  An instance of the class \<^verbatim>\<open>Command\<close>. An optional field that was never given holds
  \<^verbatim>\<open>undefined\<close>.
\<close>

record Command =
  lg_name :: string
  lc_direct_tool_output :: bool
  graph :: jsval
  update :: jsval
  resume :: jsval
  goto :: jsval

definition Command_PARENT :: string where
  "Command_PARENT = ''__parent__''"

text \<open>
  The constructor. The field initialisers run first (\<^verbatim>\<open>update = []\<close>, \<^verbatim>\<open>goto = []\<close>), then
  the body assigns \<^verbatim>\<open>resume\<close>, \<^verbatim>\<open>graph\<close> and \<^verbatim>\<open>update\<close> from \<^verbatim>\<open>args\<close> and, when
  \<^verbatim>\<open>args.goto\<close> is truthy, \<^verbatim>\<open>goto\<close>. A read of a member of \<^verbatim>\<open>args\<close> that throws, and
  \<^verbatim>\<open>Array.isArray\<close> when it throws, leave the constructor.
\<close>

definition Command_init :: Command where
  "Command_init =
     \<lparr>lg_name = ''Command'', lc_direct_tool_output = True, graph = JUndefined,
      update = JArr [], resume = JUndefined, goto = JArr []\<rparr>"

definition Command_new :: "jsval \<Rightarrow> error + Command" where
  "Command_new args =
     and_then (get_member args ''resume'') (\<lambda>r.
     and_then (get_member args ''graph'') (\<lambda>g.
     and_then (get_member args ''update'') (\<lambda>u.
     and_then (get_member args ''goto'') (\<lambda>gt.
       let this = Command_init\<lparr>resume := r, graph := g, update := u\<rparr>
       in if truthy gt
          then and_then (isArray gt) (\<lambda>a.
                 Inr (this\<lparr>goto := (if a then gt else JArr [gt])\<rparr>))
          else Inr this))))"

text \<open>
  The callback of \<^verbatim>\<open>every\<close> in \<^verbatim>\<open>_updateAsTuples\<close>:
  \<^verbatim>\<open>Array.isArray(t) && t.length === 2 && typeof t[0] === "string"\<close>.
\<close>

definition is_string_pair :: "jsval \<Rightarrow> error + bool" where
  "is_string_pair t =
     and_then (isArray t) (\<lambda>a.
       Inr (a \<and> length (array_elems t) = 2 \<and> typeof (array_index t 0) = ''string''))"

text \<open>
  \<^verbatim>\<open>_updateAsTuples\<close>. The first test is
  \<^verbatim>\<open>this.update && typeof this.update === "object" && !Array.isArray(this.update)\<close>, the
  second \<^verbatim>\<open>Array.isArray(this.update) && this.update.every(...)\<close>; in both, the right
  operand of \<^verbatim>\<open>&&\<close> is evaluated only when the left one holds.
\<close>

definition updateAsTuples :: "Command \<Rightarrow> error + jsval" where
  "updateAsTuples this =
     and_then
       (if truthy (update this) \<and> typeof (update this) = ''object''
        then and_then (isArray (update this)) (\<lambda>a. Inr (\<not> a))
        else Inr False)
       (\<lambda>is_object.
          if is_object then Object_entries (update this)
          else
            and_then
              (and_then (isArray (update this)) (\<lambda>a.
                 if a then every is_string_pair (array_elems (update this)) else Inr False))
              (\<lambda>is_tuples.
                 if is_tuples then Inr (update this)
                 else Inr (JArr [JArr [JStr ''__root__'', update this]])))"

text \<open>
  The own properties of a \<^verbatim>\<open>Command\<close> instance, as a value. The module reads them by
  name only.
\<close>

definition Command_value :: "Command \<Rightarrow> jsval" where
  "Command_value c =
     JObj [(''lg_name'', JStr (lg_name c)),
           (''lc_direct_tool_output'', JBool (lc_direct_tool_output c)),
           (''graph'', graph c), (''update'', update c), (''resume'', resume c),
           (''goto'', goto c)]"

text \<open>
  \<^verbatim>\<open>isCommand(x)\<close>:
  \<^verbatim>\<open>typeof x === "object" && !!x && (x as Command).lg_name === "Command"\<close>.
\<close>

definition isCommand :: "jsval \<Rightarrow> error + bool" where
  "isCommand x =
     (if typeof x = ''object''
      then (if truthy x
            then and_then (get_member x ''lg_name'') (\<lambda>n. Inr (n = JStr ''Command''))
            else Inr False)
      else Inr False)"

section \<open>Types of the arguments\<close>

text \<open>
  An element of \<^verbatim>\<open>goto\<close> has the type \<^verbatim>\<open>string | Send\<close>; a \<^verbatim>\<open>Send\<close> is recognised the
  way the module does it, by \<^verbatim>\<open>_isSend\<close>.
\<close>

definition is_goto_item :: "jsval \<Rightarrow> bool" where
  "is_goto_item v \<longleftrightarrow> typeof v = ''string'' \<or> isSend v = Inr True"

definition is_goto_array :: "jsval \<Rightarrow> bool" where
  "is_goto_array v \<longleftrightarrow> isArray v = Inr True \<and> list_all is_goto_item (array_elems v)"

text \<open>
  The type \<^verbatim>\<open>CommandParams\<close>, for an object of data properties: its \<^verbatim>\<open>graph\<close> is absent or
  a string, its \<^verbatim>\<open>update\<close> is absent or an object, its \<^verbatim>\<open>goto\<close> is absent, a string, a
  \<^verbatim>\<open>Send\<close> or an array of those, and its \<^verbatim>\<open>resume\<close> is anything.
\<close>

fun is_CommandParams :: "jsval \<Rightarrow> bool" where
  "is_CommandParams (JObj kvs) =
     ((member_of kvs ''graph'' = JUndefined \<or> typeof (member_of kvs ''graph'') = ''string'')
      \<and> (member_of kvs ''update'' = JUndefined
           \<or> (typeof (member_of kvs ''update'') = ''object''
                \<and> member_of kvs ''update'' \<noteq> JNull))
      \<and> (member_of kvs ''goto'' = JUndefined \<or> is_goto_item (member_of kvs ''goto'')
           \<or> is_goto_array (member_of kvs ''goto'')))"
| "is_CommandParams v = False"

text \<open>
  An update on which no step of \<^verbatim>\<open>_updateAsTuples\<close> can throw: not a revoked Proxy, no
  property whose read throws, and, for an array, no revoked Proxy among the elements.
\<close>

fun reads_safely :: "jsval \<Rightarrow> bool" where
  "reads_safely JRevoked = False"
| "reads_safely (JObjProps ps) = list_all (\<lambda>(k, own, outcome). \<not> isl outcome) ps"
| "reads_safely (JArr xs) = (JRevoked \<notin> set xs)"
| "reads_safely v = True"

section \<open>Parts of the engine outside this module\<close>

text \<open>
  The module holds constants and value classes; the engine code that uses them (the
  configuration defaults, the derivation of task ids, the forming of checkpoint namespaces,
  the interpretation of a returned \<^verbatim>\<open>Command\<close>) lies outside it. Each such part is modelled
  from the text of the specification, and marked so.
\<close>

text \<open>
  Modelled from the spec: the caller's configuration with its recognised options
  \<^verbatim>\<open>thread_id\<close>, \<^verbatim>\<open>checkpoint_ns\<close>, \<^verbatim>\<open>checkpoint_id\<close> and \<^verbatim>\<open>recursion_limit\<close>; the code that
  reads the configuration is missing. An option that is not set is \<open>None\<close>.
\<close>

record run_config =
  thread_id :: "string option"
  checkpoint_ns :: "string option"
  checkpoint_id :: "string option"
  recursion_limit :: "nat option"

text \<open>
  Modelled from the spec: the recursion limit in force for a run, "\<^verbatim>\<open>recursion_limit\<close>
  (default 25)"; the code that applies the default is missing. The default is the module's
  constant.
\<close>

definition effective_recursion_limit :: "run_config \<Rightarrow> nat" where
  "effective_recursion_limit cfg =
     (case recursion_limit cfg of None \<Rightarrow> RECURSION_LIMIT_DEFAULT | Some n \<Rightarrow> n)"

text \<open>
  Modelled from the spec: the task of the spec's data model (the scheduler's task type is
  missing), with the namespace, the node name and the identity of the triggering write
  from which the id is derived, and the input, the writes and the retry count, which
  change between a paused run and its resumption.
\<close>

record task =
  task_namespace :: "string list"
  task_node :: string
  task_trigger :: "string list"
  task_input :: jsval
  task_writes :: "(string \<times> jsval) list"
  task_retryCount :: nat

text \<open>
  Modelled from the spec: the derivation of a task's id, "derived deterministically from
  (namespace, node name, triggering-write identity) using a fixed namespace UUID"; the
  scheduler code that derives it is missing. The namespace UUID is the module's constant;
  the name-based UUID hash is a parameter.
\<close>

definition task_id ::
  "(string \<Rightarrow> string list \<times> string \<times> string list \<Rightarrow> 'id) \<Rightarrow> task \<Rightarrow> 'id" where
  "task_id uuid5 t = uuid5 TASK_NAMESPACE (task_namespace t, task_node t, task_trigger t)"


text \<open>
  Modelled from the spec: the checkpoint namespace of a nested subgraph execution, "the
  parent's namespace extended with the subgraph invocation's own segment", with the
  separator between them; the code that forms it is missing. The root graph has the empty
  namespace, and a subgraph of the root has its segment alone for namespace, as in the
  example. The separator is the module's constant.
\<close>

definition extend_ns :: "string \<Rightarrow> string \<Rightarrow> string" where
  "extend_ns parent seg =
     (if parent = [] then seg else parent @ CHECKPOINT_NAMESPACE_SEPARATOR @ seg)"

text \<open>
  Modelled from the spec: the namespace reached from a root namespace along a nesting
  path, the list of the segments of the nested invocations from the outermost inwards;
  the code that forms it is missing.
\<close>

definition ns_of_path :: "string \<Rightarrow> string list \<Rightarrow> string" where
  "ns_of_path root path = foldl extend_ns root path"


text \<open>
  Modelled from the spec: the graph a \<^verbatim>\<open>Command\<close> is meant for; the scheduler code that
  reads \<^verbatim>\<open>graph\<close> is missing. An unset \<^verbatim>\<open>graph\<close> means the current graph (the default), the
  sentinel \<^verbatim>\<open>Command.PARENT\<close> the closest parent graph.
\<close>

datatype command_target = CurrentGraph | ParentGraph | OtherGraph jsval

definition command_target :: "Command \<Rightarrow> command_target" where
  "command_target c =
     (if graph c = JUndefined then CurrentGraph
      else if graph c = JStr Command_PARENT then ParentGraph
      else OtherGraph (graph c))"

text \<open>
  Modelled from the spec: what the scheduler does with a \<^verbatim>\<open>Command\<close> returned by a node,
  "if \<^verbatim>\<open>graph\<close> targets an ancestor, the command is propagated upward through the namespace
  chain rather than applied locally"; the scheduler is missing. Applied locally, the
  update part becomes writes and the \<^verbatim>\<open>goto\<close> part routing; propagated, both travel with
  the target. The update part is the outcome of \<^verbatim>\<open>_updateAsTuples\<close>.
\<close>

datatype command_effect =
    ApplyLocally "error + jsval" jsval
  | PropagateUpwards command_target "error + jsval" jsval

definition interpret_command :: "Command \<Rightarrow> command_effect" where
  "interpret_command c =
     (case command_target c of
        CurrentGraph \<Rightarrow> ApplyLocally (updateAsTuples c) (goto c)
      | t \<Rightarrow> PropagateUpwards t (updateAsTuples c) (goto c))"

section \<open>Auxiliary facts\<close>

declare decimal.simps [simp del]

lemmas key_defs =
  INPUT_def ERROR_def CONFIG_KEY_SEND_def CONFIG_KEY_READ_def CONFIG_KEY_CHECKPOINTER_def
  CONFIG_KEY_RESUMING_def CONFIG_KEY_TASK_ID_def CONFIG_KEY_STREAM_def
  CONFIG_KEY_RESUME_VALUE_def CONFIG_KEY_WRITES_def CONFIG_KEY_SCRATCHPAD_def
  CONFIG_KEY_CHECKPOINT_MAP_def INTERRUPT_def RESUME_def TASKS_def

lemma member_of_Nil [simp]: "member_of [] k = JUndefined"
  by (simp add: member_of_def)

lemma member_of_Cons [simp]:
  "member_of ((k', v) # kvs) k = (if k = k' then v else member_of kvs k)"
  by (simp add: member_of_def)

lemma and_then_Inr_iff:
  "and_then m f = Inr y \<longleftrightarrow> (\<exists>x. m = Inr x \<and> f x = Inr y)"
  by (cases m) auto

lemma and_then_Inl_iff:
  "and_then m f = Inl e \<longleftrightarrow> m = Inl e \<or> (\<exists>x. m = Inr x \<and> f x = Inl e)"
  by (cases m) auto


lemma typeof_string: "typeof v = ''string'' \<longleftrightarrow> (\<exists>s. v = JStr s)"
  by (cases v) simp_all

subsection \<open>The constructor of \<^verbatim>\<open>Command\<close>\<close>


lemma Command_new_lg_name: "Command_new args = Inr c \<Longrightarrow> lg_name c = ''Command''"
  by (auto simp: Command_new_def Command_init_def and_then_Inr_iff Let_def split: if_splits)

lemma Command_new_graph:
  "Command_new args = Inr c \<Longrightarrow> get_member args ''graph'' = Inr (graph c)"
  by (auto simp: Command_new_def Command_init_def and_then_Inr_iff Let_def split: if_splits)






subsection \<open>\<^verbatim>\<open>_updateAsTuples\<close>\<close>

lemma pair_list_Cons:
  "(\<exists>ps. t # ts = map (\<lambda>(k, v). JArr [JStr k, v]) ps) \<longleftrightarrow>
     (\<exists>k v. t = JArr [JStr k, v]) \<and> (\<exists>ps. ts = map (\<lambda>(k, v). JArr [JStr k, v]) ps)"
proof
  assume "\<exists>ps. t # ts = map (\<lambda>(k, v). JArr [JStr k, v]) ps"
  then obtain ps where ps: "t # ts = map (\<lambda>(k, v). JArr [JStr k, v]) ps" ..
  then obtain p ps' where "ps = p # ps'" by (cases ps) auto
  with ps show "(\<exists>k v. t = JArr [JStr k, v]) \<and> (\<exists>ps. ts = map (\<lambda>(k, v). JArr [JStr k, v]) ps)"
    by (cases p) auto
next
  assume "(\<exists>k v. t = JArr [JStr k, v]) \<and> (\<exists>ps. ts = map (\<lambda>(k, v). JArr [JStr k, v]) ps)"
  then obtain k v ps where "t = JArr [JStr k, v]" "ts = map (\<lambda>(k, v). JArr [JStr k, v]) ps"
    by blast
  then have "t # ts = map (\<lambda>(k, v). JArr [JStr k, v]) ((k, v) # ps)" by simp
  then show "\<exists>ps. t # ts = map (\<lambda>(k, v). JArr [JStr k, v]) ps" ..
qed

lemma two_elems: "length xs = 2 \<longleftrightarrow> (\<exists>a b. xs = [a, b])"
  by (cases xs; cases "tl xs") auto

lemma is_string_pair_plain:
  assumes "t \<noteq> JRevoked"
  shows "is_string_pair t = Inr (\<exists>k v. t = JArr [JStr k, v])"
proof (cases t)
  case (JArr xs)
  have "length xs = 2 \<and> typeof (array_index (JArr xs) 0) = ''string''
      \<longleftrightarrow> (\<exists>k v. xs = [JStr k, v])"
    by (auto simp: two_elems array_index_def typeof_string)
  with JArr show ?thesis
    by (simp add: is_string_pair_def)
qed (use assms in \<open>simp_all add: is_string_pair_def\<close>)

lemma every_pairs:
  "JRevoked \<notin> set xs \<Longrightarrow>
     every is_string_pair xs = Inr (\<exists>ps. xs = map (\<lambda>(k, v). JArr [JStr k, v]) ps)"
proof (induction xs)
  case Nil
  then show ?case by simp
next
  case (Cons t ts)
  then have "t \<noteq> JRevoked" and "JRevoked \<notin> set ts" by auto
  with Cons.IH show ?case
    by (simp add: is_string_pair_plain pair_list_Cons)
qed

lemma every_true_pairs:
  "every is_string_pair xs = Inr True \<Longrightarrow> \<exists>ps. xs = map (\<lambda>(k, v). JArr [JStr k, v]) ps"
proof (induction xs)
  case Nil
  then show ?case by simp
next
  case (Cons t ts)
  from Cons.prems have t: "is_string_pair t = Inr True"
    and ts: "every is_string_pair ts = Inr True"
    by (auto simp: and_then_Inr_iff split: if_splits)
  from t have "t \<noteq> JRevoked" by (auto simp: is_string_pair_def)
  with t have "\<exists>k v. t = JArr [JStr k, v]" by (simp add: is_string_pair_plain)
  with Cons.IH [OF ts] show ?case by (simp add: pair_list_Cons)
qed

lemma pairs_not_revoked: "JRevoked \<notin> set (map (\<lambda>(k, v). JArr [JStr k, v]) ps)"
  by (induction ps) auto

lemma read_entries_shape:
  "read_entries ps = Inr es \<Longrightarrow> \<exists>qs. es = map (\<lambda>(k, v). JArr [JStr k, v]) qs"
proof (induction ps arbitrary: es)
  case Nil
  then show ?case by simp
next
  case (Cons p ps)
  obtain k own outcome where p: "p = (k, own, outcome)" by (cases p)
  show ?case
  proof (cases own)
    case False
    with Cons p show ?thesis by simp
  next
    case True
    with Cons.prems p obtain v es' where
      "outcome = Inr v" "read_entries ps = Inr es'" "es = JArr [JStr k, v] # es'"
      by (auto simp: and_then_Inr_iff)
    with Cons.IH [of es'] show ?thesis
      by (auto simp: pair_list_Cons)
  qed
qed

lemma read_entries_safe:
  "list_all (\<lambda>(k, own, outcome). \<not> isl outcome) ps \<Longrightarrow>
     read_entries ps =
       Inr (map (\<lambda>(k, own, outcome). JArr [JStr k, projr outcome])
              (filter (\<lambda>(k, own, outcome). own) ps))"
proof (induction ps)
  case Nil
  then show ?case by simp
next
  case (Cons p ps)
  obtain k own outcome where p: "p = (k, own, outcome)" by (cases p)
  with Cons.prems obtain v where "outcome = Inr v" by (cases outcome) auto
  with Cons p show ?case by simp
qed

lemma updateAsTuples_JObj:
  "update c = JObj kvs \<Longrightarrow>
     updateAsTuples c = Inr (JArr (map (\<lambda>(k, v). JArr [JStr k, v]) kvs))"
  by (simp add: updateAsTuples_def)

lemma updateAsTuples_JObjProps:
  "update c = JObjProps ps \<Longrightarrow>
     updateAsTuples c = and_then (read_entries ps) (\<lambda>es. Inr (JArr es))"
  by (simp add: updateAsTuples_def)

lemma updateAsTuples_JArr:
  "update c = JArr xs \<Longrightarrow> JRevoked \<notin> set xs \<Longrightarrow>
     updateAsTuples c =
       Inr (if \<exists>ps. xs = map (\<lambda>(k, v). JArr [JStr k, v]) ps then JArr xs
            else JArr [JArr [JStr ''__root__'', JArr xs]])"
  by (simp add: updateAsTuples_def every_pairs)

lemma updateAsTuples_other:
  assumes "\<forall>kvs. update c \<noteq> JObj kvs" and "\<forall>ps. update c \<noteq> JObjProps ps"
    and "\<forall>xs. update c \<noteq> JArr xs" and "update c \<noteq> JRevoked"
  shows "updateAsTuples c = Inr (JArr [JArr [JStr ''__root__'', update c]])"
  using assms by (cases "update c") (simp_all add: updateAsTuples_def)

lemma updateAsTuples_shape:
  assumes "updateAsTuples c = Inr r"
  shows "\<exists>ps. r = JArr (map (\<lambda>(k, v). JArr [JStr k, v]) ps)"
proof -
  have root: "\<exists>ps. JArr [JArr [JStr ''__root__'', u]] = JArr (map (\<lambda>(k, v). JArr [JStr k, v]) ps)"
    for u
    by (rule exI [of _ "[(''__root__'', u)]"]) simp
  show ?thesis
  proof (cases "update c")
    case (JObj kvs)
    with assms show ?thesis by (auto simp: updateAsTuples_JObj)
  next
    case (JObjProps ps)
    with assms obtain es where "read_entries ps = Inr es" "r = JArr es"
      by (auto simp: updateAsTuples_JObjProps and_then_Inr_iff)
    with read_entries_shape show ?thesis by blast
  next
    case (JArr xs)
    show ?thesis
    proof (cases "every is_string_pair xs")
      case (Inl e)
      with assms JArr show ?thesis by (simp add: updateAsTuples_def)
    next
      case (Inr b)
      show ?thesis
      proof (cases b)
        case False
        with assms JArr Inr have "r = JArr [JArr [JStr ''__root__'', JArr xs]]"
          by (simp add: updateAsTuples_def)
        with root [of "JArr xs"] show ?thesis by simp
      next
        case True
        from Inr True have "\<exists>ps. xs = map (\<lambda>(k, v). JArr [JStr k, v]) ps"
          by (simp add: every_true_pairs)
        with assms JArr Inr True show ?thesis by (auto simp: updateAsTuples_def)
      qed
    qed
  next
    case JRevoked
    with assms show ?thesis by (simp add: updateAsTuples_def)
  qed (use assms root in \<open>auto simp: updateAsTuples_def\<close>)
qed

lemma updateAsTuples_returns:
  assumes "reads_safely (update c)"
  shows "\<exists>r. updateAsTuples c = Inr r"
proof (cases "update c")
  case (JObjProps ps)
  with assms show ?thesis
    by (simp add: updateAsTuples_JObjProps read_entries_safe)
next
  case (JArr xs)
  with assms show ?thesis by (simp add: updateAsTuples_JArr)
next
  case JRevoked
  with assms show ?thesis by simp
qed (simp_all add: updateAsTuples_def)

subsection \<open>\<^verbatim>\<open>isCommand\<close>\<close>

lemma isCommand_throws_iff:
  "isCommand x = Inl e \<longleftrightarrow>
     typeof x = ''object'' \<and> x \<noteq> JNull \<and> get_member x ''lg_name'' = Inl e"
  by (cases x) (auto simp: isCommand_def and_then_Inl_iff)

lemma isCommand_true_iff:
  "isCommand x = Inr True \<longleftrightarrow>
     typeof x = ''object'' \<and> x \<noteq> JNull \<and> get_member x ''lg_name'' = Inr (JStr ''Command'')"
  by (cases x) (auto simp: isCommand_def and_then_Inr_iff)

lemma isCommand_no_read:
  "x = JNull \<or> typeof x \<noteq> ''object'' \<Longrightarrow> isCommand x = Inr False"
  by (auto simp: isCommand_def)

lemma isCommand_Command_value:
  "lg_name c = ''Command'' \<Longrightarrow> isCommand (Command_value c) = Inr True"
  by (simp add: isCommand_def Command_value_def)

subsection \<open>Joined namespaces\<close>



lemma ns_of_path_root_Nil [simp]: "ns_of_path [] [] = []"
  by (simp add: ns_of_path_def)







section \<open>The reserved-name list\<close>

text \<open>
  C1. The list \<open>RESERVED\<close> holds \<^verbatim>\<open>__error__\<close>, \<^verbatim>\<open>__interrupt__\<close>, \<^verbatim>\<open>__input__\<close> and the
  task-scoped send and read keys, but the list stops short of the three keys declared
  right after \<^verbatim>\<open>CONFIG_KEY_STREAM\<close>: the writes key, the resume-value key and the
  scratchpad key are not members.
\<close>

theorem RESERVED_omits_three_keys:
  "ERROR \<in> set RESERVED \<and> INTERRUPT \<in> set RESERVED \<and> INPUT \<in> set RESERVED
   \<and> CONFIG_KEY_SEND \<in> set RESERVED \<and> CONFIG_KEY_READ \<in> set RESERVED
   \<and> CONFIG_KEY_WRITES \<notin> set RESERVED
   \<and> CONFIG_KEY_RESUME_VALUE \<notin> set RESERVED
   \<and> CONFIG_KEY_SCRATCHPAD \<notin> set RESERVED"
  by (simp add: RESERVED_def key_defs)

section \<open>Task ids\<close>

text \<open>
  C2. The id of a task is a function of its namespace, its node name and the identity of its
  triggering write, under the fixed namespace UUID: two tasks that agree on these three
  have the same id under every UUID hash, whatever their input, their writes and their
  retry count are; so the task scheduled again on resume has the id it had before the
  interrupt.
\<close>

theorem task_id_deterministic:
  assumes "task_namespace t1 = task_namespace t2"
    and "task_node t1 = task_node t2"
    and "task_trigger t1 = task_trigger t2"
  shows "task_id uuid5 t1 = task_id uuid5 t2"
  using assms by (simp add: task_id_def)

text \<open>
  A task before an interrupt and the same logical step after the resume, with another
  input, a recorded write and a retry.
\<close>

theorem task_id_deterministic_witness:
  "task_id (\<lambda>space (path, node, trigger). space @ concat path @ node @ concat trigger)
     \<lparr>task_namespace = [''parent''], task_node = ''ask'', task_trigger = [PULL, ''ask''],
      task_input = JObj [], task_writes = [], task_retryCount = 0\<rparr>
   = task_id (\<lambda>space (path, node, trigger). space @ concat path @ node @ concat trigger)
     \<lparr>task_namespace = [''parent''], task_node = ''ask'', task_trigger = [PULL, ''ask''],
      task_input = JObj [(''answer'', JStr ''yes'')],
      task_writes = [(RESUME, JStr ''yes'')], task_retryCount = 1\<rparr>"
  using task_id_deterministic
    [of "\<lparr>task_namespace = [''parent''], task_node = ''ask'', task_trigger = [PULL, ''ask''],
      task_input = JObj [], task_writes = [], task_retryCount = 0\<rparr>"
     "\<lparr>task_namespace = [''parent''], task_node = ''ask'', task_trigger = [PULL, ''ask''],
      task_input = JObj [(''answer'', JStr ''yes'')],
      task_writes = [(RESUME, JStr ''yes'')], task_retryCount = 1\<rparr>"
     "\<lambda>space (path, node, trigger). space @ concat path @ node @ concat trigger"]
  by simp

section \<open>Interrupts\<close>

text \<open>
  C3, as amended. Every \<^verbatim>\<open>Interrupt\<close> carries a \<^verbatim>\<open>when\<close> field whose value is the string
  \<^verbatim>\<open>"during"\<close> and no other; its \<^verbatim>\<open>resumable\<close> flag is optional: absent, or a boolean.
\<close>

theorem Interrupt_when_during:
  "when_string (when i) = ''during''
   \<and> (resumable i = None \<or> resumable i = Some True \<or> resumable i = Some False)"
proof -
  have "when_string (when i) = ''during''"
    by (cases "when i") simp
  moreover have "resumable i = None \<or> resumable i = Some True \<or> resumable i = Some False"
    by (cases "resumable i") auto
  ultimately show ?thesis by blast
qed

text \<open>
  The claim as stated asks for a \<^verbatim>\<open>resumable\<close> flag on every \<^verbatim>\<open>Interrupt\<close>; the value
  \<^verbatim>\<open>{ value: "need input", when: "during" }\<close> has the type and carries none.
\<close>

theorem Interrupt_without_resumable:
  "resumable \<lparr>value = JStr ''need input'', when = During, resumable = None, ns = None\<rparr> = None"
  by simp

section \<open>The recursion limit\<close>

text \<open>
  C4. When the caller's configuration does not set \<^verbatim>\<open>recursion_limit\<close>, the recursion limit
  in force is 25.
\<close>

theorem recursion_limit_default:
  "recursion_limit cfg = None \<Longrightarrow> effective_recursion_limit cfg = 25"
  by (simp add: effective_recursion_limit_def RECURSION_LIMIT_DEFAULT_def)

theorem recursion_limit_default_witness:
  "effective_recursion_limit
     \<lparr>thread_id = Some ''1'', checkpoint_ns = None, checkpoint_id = None,
      recursion_limit = None\<rparr> = 25"
  using recursion_limit_default
    [of "\<lparr>thread_id = Some ''1'', checkpoint_ns = None, checkpoint_id = None,
          recursion_limit = None\<rparr>"]
  by simp

section \<open>The constructor of \<^verbatim>\<open>Command\<close>\<close>




section \<open>\<^verbatim>\<open>Send\<close> and its interface\<close>

text \<open>
  C6. \<^verbatim>\<open>_isSendInterface\<close> answers true exactly when the \<^verbatim>\<open>node\<close> member of its argument
  is a string and its \<^verbatim>\<open>args\<close> member is defined; the constructor of \<^verbatim>\<open>Send\<close> stores the
  given node and args unchanged.
\<close>

theorem isSendInterface_spec:
  "(isSendInterface x = Inr True \<longleftrightarrow>
      (\<exists>n a. get_member x ''node'' = Inr n \<and> typeof n = ''string''
             \<and> get_member x ''args'' = Inr a \<and> a \<noteq> JUndefined))
   \<and> get_member (Send_new node args) ''node'' = Inr (JStr node)
   \<and> get_member (Send_new node args) ''args'' = Inr args"
proof -
  have "isSendInterface x = Inr True \<longleftrightarrow>
      (\<exists>n a. get_member x ''node'' = Inr n \<and> typeof n = ''string''
             \<and> get_member x ''args'' = Inr a \<and> a \<noteq> JUndefined)"
    unfolding isSendInterface_def
    by (auto simp: and_then_Inr_iff split: if_splits)
  moreover have "get_member (Send_new node args) ''node'' = Inr (JStr node)"
    by (simp add: Send_new_def)
  moreover have "get_member (Send_new node args) ''args'' = Inr args"
    by (simp add: Send_new_def)
  ultimately show ?thesis by blast
qed

section \<open>Checkpoint namespaces\<close>



section \<open>Commands for the parent graph\<close>

text \<open>
  C8. The sentinel \<^verbatim>\<open>Command.PARENT\<close> is the string \<^verbatim>\<open>__parent__\<close>. A command targets the
  closest parent graph exactly when its \<^verbatim>\<open>graph\<close> is the sentinel; with \<^verbatim>\<open>graph\<close> unset it is
  applied to the current graph; with the sentinel, its update and its \<^verbatim>\<open>goto\<close> are
  propagated to the parent and not applied locally, and so for a command constructed with
  \<^verbatim>\<open>graph: Command.PARENT\<close>.
\<close>

theorem Command_PARENT_target:
  "Command_PARENT = ''__parent__''
   \<and> (command_target c = ParentGraph \<longleftrightarrow> graph c = JStr ''__parent__'')
   \<and> (graph c = JUndefined \<longrightarrow>
        interpret_command c = ApplyLocally (updateAsTuples c) (goto c))
   \<and> (graph c = JStr ''__parent__'' \<longrightarrow>
        interpret_command c = PropagateUpwards ParentGraph (updateAsTuples c) (goto c))
   \<and> (Command_new args = Inr c \<and> get_member args ''graph'' = Inr (JStr ''__parent__'') \<longrightarrow>
        interpret_command c = PropagateUpwards ParentGraph (updateAsTuples c) (goto c))"
proof -
  have sentinel: "Command_PARENT = ''__parent__''"
    by (simp add: Command_PARENT_def)
  have target: "command_target c = ParentGraph \<longleftrightarrow> graph c = JStr ''__parent__''"
    by (simp add: command_target_def sentinel)
  have current: "graph c = JUndefined \<longrightarrow>
      interpret_command c = ApplyLocally (updateAsTuples c) (goto c)"
    by (simp add: command_target_def interpret_command_def)
  have parent: "graph c = JStr ''__parent__'' \<longrightarrow>
      interpret_command c = PropagateUpwards ParentGraph (updateAsTuples c) (goto c)"
    by (simp add: command_target_def interpret_command_def sentinel)
  have built: "Command_new args = Inr c \<and> get_member args ''graph'' = Inr (JStr ''__parent__'') \<longrightarrow>
      interpret_command c = PropagateUpwards ParentGraph (updateAsTuples c) (goto c)"
    using parent Command_new_graph [of args c] by auto
  from sentinel target current parent built show ?thesis by blast
qed

text \<open>
  A command with \<^verbatim>\<open>graph\<close> unset, and the command
  \<^verbatim>\<open>new Command({graph: Command.PARENT, update: {foo: "a"}, goto: "B"})\<close>.
\<close>

theorem Command_PARENT_target_witness:
  "interpret_command (Command_init\<lparr>update := JObj [(''foo'', JStr ''a'')]\<rparr>)
     = ApplyLocally (Inr (JArr [JArr [JStr ''foo'', JStr ''a'']])) (JArr [])
   \<and> Command_new (JObj [(''graph'', JStr ''__parent__''), (''update'', JObj [(''foo'', JStr ''a'')]),
                         (''goto'', JStr ''B'')])
     = Inr (Command_init\<lparr>graph := JStr ''__parent__'', update := JObj [(''foo'', JStr ''a'')],
                         goto := JArr [JStr ''B'']\<rparr>)
   \<and> interpret_command
       (Command_init\<lparr>graph := JStr ''__parent__'', update := JObj [(''foo'', JStr ''a'')],
                     goto := JArr [JStr ''B'']\<rparr>)
     = PropagateUpwards ParentGraph (Inr (JArr [JArr [JStr ''foo'', JStr ''a'']]))
         (JArr [JStr ''B''])"
proof -
  let ?args = "JObj [(''graph'', JStr ''__parent__''), (''update'', JObj [(''foo'', JStr ''a'')]),
                     (''goto'', JStr ''B'')]"
  let ?c1 = "Command_init\<lparr>update := JObj [(''foo'', JStr ''a'')]\<rparr>"
  let ?c2 = "Command_init\<lparr>graph := JStr ''__parent__'', update := JObj [(''foo'', JStr ''a'')],
                     goto := JArr [JStr ''B'']\<rparr>"
  have new: "Command_new ?args = Inr ?c2"
    by (simp add: Command_new_def Command_init_def)
  have graph: "get_member ?args ''graph'' = Inr (JStr ''__parent__'')"
    by simp
  have "graph ?c1 = JUndefined"
    by (simp add: Command_init_def)
  with Command_PARENT_target [of ?c1 ?args]
  have "interpret_command ?c1 = ApplyLocally (updateAsTuples ?c1) (goto ?c1)"
    by blast
  then have local: "interpret_command ?c1 =
      ApplyLocally (Inr (JArr [JArr [JStr ''foo'', JStr ''a'']])) (JArr [])"
    by (simp add: Command_init_def updateAsTuples_def)
  from Command_PARENT_target [of ?c2 ?args] new graph
  have "interpret_command ?c2 = PropagateUpwards ParentGraph (updateAsTuples ?c2) (goto ?c2)"
    by blast
  then have up: "interpret_command ?c2 =
      PropagateUpwards ParentGraph (Inr (JArr [JArr [JStr ''foo'', JStr ''a'']]))
        (JArr [JStr ''B''])"
    by (simp add: Command_init_def updateAsTuples_def)
  from local new up show ?thesis by blast
qed

section \<open>\<^verbatim>\<open>_updateAsTuples\<close>\<close>

text \<open>
  C9, as amended. For every \<^verbatim>\<open>Command\<close>, whenever \<^verbatim>\<open>_updateAsTuples\<close> returns, it returns
  an array of pairs with a string first component; and it returns whenever reading
  \<^verbatim>\<open>update\<close> cannot throw (no revoked Proxy, no property whose read throws). It gives the
  entries of \<^verbatim>\<open>update\<close> when that is a non-array object, \<^verbatim>\<open>update\<close> itself when that is an
  array in which every element is a two-element array with a string first component, and
  the single pair \<^verbatim>\<open>["__root__", update]\<close> in every other case; a \<^verbatim>\<open>Command\<close> constructed
  without an update yields \<^verbatim>\<open>[["__root__", undefined]]\<close>.
\<close>

theorem updateAsTuples_cases:
  "(updateAsTuples c = Inr r \<longrightarrow> (\<exists>ps. r = JArr (map (\<lambda>(k, v). JArr [JStr k, v]) ps)))
   \<and> (reads_safely (update c) \<longrightarrow> (\<exists>r. updateAsTuples c = Inr r))
   \<and> (update c = JObj kvs \<longrightarrow>
        updateAsTuples c = Inr (JArr (map (\<lambda>(k, v). JArr [JStr k, v]) kvs)))
   \<and> (update c = JObjProps props \<and> reads_safely (update c) \<longrightarrow>
        updateAsTuples c =
          Inr (JArr (map (\<lambda>(k, own, outcome). JArr [JStr k, projr outcome])
                      (filter (\<lambda>(k, own, outcome). own) props))))
   \<and> (update c = JArr (map (\<lambda>(k, v). JArr [JStr k, v]) pairs) \<longrightarrow>
        updateAsTuples c = Inr (update c))
   \<and> (reads_safely (update c)
        \<and> (\<forall>kvs. update c \<noteq> JObj kvs) \<and> (\<forall>props. update c \<noteq> JObjProps props)
        \<and> (\<forall>pairs. update c \<noteq> JArr (map (\<lambda>(k, v). JArr [JStr k, v]) pairs)) \<longrightarrow>
        updateAsTuples c = Inr (JArr [JArr [JStr ''__root__'', update c]]))
   \<and> (member_of args ''update'' = JUndefined \<and> Command_new (JObj args) = Inr c \<longrightarrow>
        updateAsTuples c = Inr (JArr [JArr [JStr ''__root__'', JUndefined]]))"
proof -
  have shape: "updateAsTuples c = Inr r \<longrightarrow>
      (\<exists>ps. r = JArr (map (\<lambda>(k, v). JArr [JStr k, v]) ps))"
    using updateAsTuples_shape [of c r] by blast
  have returns: "reads_safely (update c) \<longrightarrow> (\<exists>r. updateAsTuples c = Inr r)"
    using updateAsTuples_returns [of c] by blast
  have obj: "update c = JObj kvs \<longrightarrow>
      updateAsTuples c = Inr (JArr (map (\<lambda>(k, v). JArr [JStr k, v]) kvs))"
    using updateAsTuples_JObj [of c kvs] by blast
  have props: "update c = JObjProps props \<and> reads_safely (update c) \<longrightarrow>
      updateAsTuples c =
        Inr (JArr (map (\<lambda>(k, own, outcome). JArr [JStr k, projr outcome])
                    (filter (\<lambda>(k, own, outcome). own) props)))"
    by (auto simp: updateAsTuples_JObjProps read_entries_safe)
  have arr: "update c = JArr (map (\<lambda>(k, v). JArr [JStr k, v]) pairs) \<longrightarrow>
      updateAsTuples c = Inr (update c)"
    using updateAsTuples_JArr [of c "map (\<lambda>(k, v). JArr [JStr k, v]) pairs"]
      pairs_not_revoked [of pairs]
    by auto
  have root: "reads_safely (update c)
      \<and> (\<forall>kvs. update c \<noteq> JObj kvs) \<and> (\<forall>props. update c \<noteq> JObjProps props)
      \<and> (\<forall>pairs. update c \<noteq> JArr (map (\<lambda>(k, v). JArr [JStr k, v]) pairs)) \<longrightarrow>
      updateAsTuples c = Inr (JArr [JArr [JStr ''__root__'', update c]])"
  proof (cases "\<exists>xs. update c = JArr xs")
    case True
    then obtain xs where xs: "update c = JArr xs" ..
    show ?thesis
      using updateAsTuples_JArr [of c xs] xs by auto
  next
    case False
    then show ?thesis
      using updateAsTuples_other [of c] by (cases "update c") auto
  qed
  have none: "member_of args ''update'' = JUndefined \<and> Command_new (JObj args) = Inr c \<longrightarrow>
      updateAsTuples c = Inr (JArr [JArr [JStr ''__root__'', JUndefined]])"
  proof (intro impI, elim conjE)
    assume u: "member_of args ''update'' = JUndefined" and new: "Command_new (JObj args) = Inr c"
    from new have "get_member (JObj args) ''update'' = Inr (update c)"
      by (auto simp: Command_new_def Command_init_def and_then_Inr_iff Let_def split: if_splits)
    with u have "update c = JUndefined" by simp
    then show "updateAsTuples c = Inr (JArr [JArr [JStr ''__root__'', JUndefined]])"
      by (simp add: updateAsTuples_def)
  qed
  from shape returns obj props arr root none show ?thesis by blast
qed

text \<open>
  An object update, an object with an inherited property, an array of pairs, an array that
  is no array of pairs, a number, and the command \<^verbatim>\<open>new Command({})\<close>.
\<close>

theorem updateAsTuples_cases_witness:
  "updateAsTuples (Command_init\<lparr>update := JObj [(''foo'', JStr ''a'')]\<rparr>)
     = Inr (JArr [JArr [JStr ''foo'', JStr ''a'']])
   \<and> updateAsTuples
       (Command_init\<lparr>update :=
          JObjProps [(''foo'', True, Inr (JStr ''a'')), (''kind'', False, Inr (JStr ''base''))]\<rparr>)
     = Inr (JArr [JArr [JStr ''foo'', JStr ''a'']])
   \<and> updateAsTuples (Command_init\<lparr>update := JArr [JArr [JStr ''k'', JNum 1]]\<rparr>)
     = Inr (JArr [JArr [JStr ''k'', JNum 1]])
   \<and> updateAsTuples (Command_init\<lparr>update := JArr [JNum 5]\<rparr>)
     = Inr (JArr [JArr [JStr ''__root__'', JArr [JNum 5]]])
   \<and> updateAsTuples (Command_init\<lparr>update := JNum 5\<rparr>)
     = Inr (JArr [JArr [JStr ''__root__'', JNum 5]])
   \<and> Command_new (JObj []) = Inr (Command_init\<lparr>update := JUndefined\<rparr>)
   \<and> updateAsTuples (Command_init\<lparr>update := JUndefined\<rparr>)
     = Inr (JArr [JArr [JStr ''__root__'', JUndefined]])"
proof -
  let ?c1 = "Command_init\<lparr>update := JObj [(''foo'', JStr ''a'')]\<rparr>"
  let ?ps = "[(''foo'', True, Inr (JStr ''a'')), (''kind'', False, Inr (JStr ''base''))]"
  let ?c2 = "Command_init\<lparr>update := JObjProps ?ps\<rparr>"
  let ?c3 = "Command_init\<lparr>update := JArr [JArr [JStr ''k'', JNum 1]]\<rparr>"
  let ?c4 = "Command_init\<lparr>update := JArr [JNum 5]\<rparr>"
  let ?c5 = "Command_init\<lparr>update := JNum 5\<rparr>"
  let ?c6 = "Command_init\<lparr>update := JUndefined\<rparr>"
  have new: "Command_new (JObj []) = Inr ?c6"
    by (simp add: Command_new_def Command_init_def)
  have "updateAsTuples ?c1 = Inr (JArr [JArr [JStr ''foo'', JStr ''a'']])"
    using updateAsTuples_cases [of ?c1 _ "[(''foo'', JStr ''a'')]"] by simp
  moreover have "updateAsTuples ?c2 = Inr (JArr [JArr [JStr ''foo'', JStr ''a'']])"
    using updateAsTuples_cases [of ?c2 _ _ ?ps] by simp
  moreover have "updateAsTuples ?c3 = Inr (JArr [JArr [JStr ''k'', JNum 1]])"
    using updateAsTuples_cases [of ?c3 _ _ _ "[(''k'', JNum 1)]"] by simp
  moreover have "updateAsTuples ?c4 = Inr (JArr [JArr [JStr ''__root__'', JArr [JNum 5]]])"
  proof -
    have "JArr [JNum 5] \<noteq> JArr (map (\<lambda>(k, v). JArr [JStr k, v]) pairs)" for pairs
      by (cases pairs) auto
    then show ?thesis
      using updateAsTuples_cases [of ?c4] by simp
  qed
  moreover have "updateAsTuples ?c5 = Inr (JArr [JArr [JStr ''__root__'', JNum 5]])"
    using updateAsTuples_cases [of ?c5] by simp
  moreover have "updateAsTuples ?c6 = Inr (JArr [JArr [JStr ''__root__'', JUndefined]])"
    using updateAsTuples_cases [of ?c6 _ _ _ _ "[]"] new by simp
  ultimately show ?thesis using new by blast
qed

text \<open>
  The claim as stated has the method total. The command
  \<^verbatim>\<open>new Command({update: {get foo() { throw ... }}})\<close> is constructed without an exception,
  and its \<^verbatim>\<open>_updateAsTuples\<close> throws what the getter throws, when \<^verbatim>\<open>Object.entries\<close> reads
  the property.
\<close>

theorem updateAsTuples_throwing_getter:
  "is_CommandParams (JObj [(''update'', JObjProps [(''foo'', True, Inl Thrown)])])
   \<and> Command_new (JObj [(''update'', JObjProps [(''foo'', True, Inl Thrown)])])
       = Inr (Command_init\<lparr>update := JObjProps [(''foo'', True, Inl Thrown)]\<rparr>)
   \<and> updateAsTuples (Command_init\<lparr>update := JObjProps [(''foo'', True, Inl Thrown)]\<rparr>)
       = Inl Thrown"
  by (simp add: Command_new_def Command_init_def updateAsTuples_def)

section \<open>\<^verbatim>\<open>isCommand\<close>\<close>

text \<open>
  C10, as amended. \<^verbatim>\<open>isCommand\<close> throws exactly when its argument is a non-null object
  whose \<^verbatim>\<open>lg_name\<close> cannot be read without an exception, and then it throws that exception;
  on every other value, \<^verbatim>\<open>null\<close>, \<^verbatim>\<open>undefined\<close> and the primitives included, it returns a
  boolean. It returns true exactly when the value is a non-null object whose \<^verbatim>\<open>lg_name\<close> is
  \<^verbatim>\<open>"Command"\<close>, and so on every \<^verbatim>\<open>Command\<close> that the constructor returns.
\<close>

theorem isCommand_outcome:
  "(isCommand x = Inl e \<longleftrightarrow>
        typeof x = ''object'' \<and> x \<noteq> JNull \<and> get_member x ''lg_name'' = Inl e)
   \<and> ((\<forall>e. get_member x ''lg_name'' \<noteq> Inl e) \<or> x = JNull \<or> typeof x \<noteq> ''object'' \<longrightarrow>
        (\<exists>b. isCommand x = Inr b))
   \<and> (x = JNull \<or> typeof x \<noteq> ''object'' \<longrightarrow> isCommand x = Inr False)
   \<and> (isCommand x = Inr True \<longleftrightarrow>
        typeof x = ''object'' \<and> x \<noteq> JNull
        \<and> get_member x ''lg_name'' = Inr (JStr ''Command''))
   \<and> (Command_new args = Inr c \<longrightarrow> isCommand (Command_value c) = Inr True)"
proof -
  have throws: "isCommand x = Inl e \<longleftrightarrow>
      typeof x = ''object'' \<and> x \<noteq> JNull \<and> get_member x ''lg_name'' = Inl e" for e
    by (rule isCommand_throws_iff)
  have returns: "(\<forall>e. get_member x ''lg_name'' \<noteq> Inl e) \<or> x = JNull \<or> typeof x \<noteq> ''object'' \<longrightarrow>
      (\<exists>b. isCommand x = Inr b)"
  proof
    assume "(\<forall>e. get_member x ''lg_name'' \<noteq> Inl e) \<or> x = JNull \<or> typeof x \<noteq> ''object''"
    with throws have "isCommand x \<noteq> Inl e" for e by blast
    then show "\<exists>b. isCommand x = Inr b" by (cases "isCommand x") auto
  qed
  have no_read: "x = JNull \<or> typeof x \<noteq> ''object'' \<longrightarrow> isCommand x = Inr False"
    using isCommand_no_read [of x] by blast
  have built: "Command_new args = Inr c \<longrightarrow> isCommand (Command_value c) = Inr True"
    using isCommand_Command_value [of c] Command_new_lg_name [of args c] by blast
  from throws [of e] returns no_read isCommand_true_iff [of x] built show ?thesis by blast
qed

text \<open>
  The values \<^verbatim>\<open>null\<close> and \<^verbatim>\<open>undefined\<close>, an object that inherits \<^verbatim>\<open>lg_name\<close>, and the
  command \<^verbatim>\<open>new Command({goto: "B"})\<close>.
\<close>

theorem isCommand_outcome_witness:
  "isCommand JNull = Inr False
   \<and> isCommand JUndefined = Inr False
   \<and> isCommand (JObjProps [(''lg_name'', False, Inr (JStr ''Command''))]) = Inr True
   \<and> Command_new (JObj [(''goto'', JStr ''B'')]) =
       Inr \<lparr>lg_name = ''Command'', lc_direct_tool_output = True, graph = JUndefined,
            update = JUndefined, resume = JUndefined, goto = JArr [JStr ''B'']\<rparr>
   \<and> isCommand (Command_value
        \<lparr>lg_name = ''Command'', lc_direct_tool_output = True, graph = JUndefined,
         update = JUndefined, resume = JUndefined, goto = JArr [JStr ''B'']\<rparr>) = Inr True"
proof -
  let ?args = "JObj [(''goto'', JStr ''B'')]"
  let ?c = "\<lparr>lg_name = ''Command'', lc_direct_tool_output = True, graph = JUndefined,
            update = JUndefined, resume = JUndefined, goto = JArr [JStr ''B'']\<rparr>"
  let ?x = "JObjProps [(''lg_name'', False, Inr (JStr ''Command''))]"
  have new: "Command_new ?args = Inr ?c"
    by (simp add: Command_new_def Command_init_def)
  have "isCommand JNull = Inr False"
    using isCommand_outcome [of JNull _ ?args ?c] by simp
  moreover have "isCommand JUndefined = Inr False"
    using isCommand_outcome [of JUndefined _ ?args ?c] by simp
  moreover have "isCommand ?x = Inr True"
    using isCommand_outcome [of ?x _ ?args ?c] by simp
  moreover have "isCommand (Command_value ?c) = Inr True"
    using isCommand_outcome [of JNull _ ?args ?c] new by blast
  ultimately show ?thesis using new by blast
qed

text \<open>
  The claim as stated has \<^verbatim>\<open>isCommand\<close> return on every value. On the object
  \<^verbatim>\<open>{get lg_name() { throw ... }}\<close> the read of \<^verbatim>\<open>lg_name\<close> runs the getter, and \<^verbatim>\<open>isCommand\<close>
  throws what the getter throws.
\<close>

theorem isCommand_throwing_getter:
  "isCommand (JObjProps [(''lg_name'', True, Inl Thrown)]) = Inl Thrown"
  by (simp add: isCommand_def)

end
